theory Spec2Isabelle
  imports Complex_Main "HOL-Library.Word"
begin

section \<open>JavaScript values\<close>

subsection \<open>Strings\<close>

text \<open>
  A JavaScript string is a sequence of UTF-16 code units; \<open>.length\<close> counts code units.
  The ASCII literals of the source are written with \<open>js\<close>.
\<close>

type_synonym jsstring = "16 word list"

definition u16 :: "char \<Rightarrow> 16 word" where
  "u16 c = of_nat (of_char c)"

definition js :: "string \<Rightarrow> jsstring" where
  "js s = map u16 s"

text \<open>
  The code units \<open>String.prototype.trim\<close> strips: ECMAScript WhiteSpace (TAB, VT, FF, SP,
  NBSP, ZWNBSP and the Unicode category Zs) and LineTerminator (LF, CR, LS, PS).
\<close>

definition is_ws :: "16 word \<Rightarrow> bool" where
  "is_ws c =
     (c = 0x09 \<or> c = 0x0A \<or> c = 0x0B \<or> c = 0x0C \<or> c = 0x0D \<or> c = 0x20 \<or> c = 0xA0
      \<or> c = 0x1680 \<or> (0x2000 \<le> c \<and> c \<le> 0x200A) \<or> c = 0x2028 \<or> c = 0x2029
      \<or> c = 0x202F \<or> c = 0x205F \<or> c = 0x3000 \<or> c = 0xFEFF)"

definition trim :: "jsstring \<Rightarrow> jsstring" where
  "trim s = rev (dropWhile is_ws (rev (dropWhile is_ws s)))"

text \<open>\<open>s.startsWith(p)\<close>.\<close>

definition startsWith :: "jsstring \<Rightarrow> jsstring \<Rightarrow> bool" where
  "startsWith s p = (take (length p) s = p)"

text \<open>\<open>s.split(",")\<close>: the pieces between the separators; never the empty list.\<close>

fun split :: "16 word \<Rightarrow> jsstring \<Rightarrow> jsstring list" where
  "split sep [] = [[]]"
| "split sep (c # cs) =
     (if c = sep then [] # split sep cs
      else (case split sep cs of [] \<Rightarrow> [[c]] | p # ps \<Rightarrow> (c # p) # ps))"

definition comma :: "16 word" where
  "comma = 0x2C"

definition nl :: jsstring where
  "nl = [0x0A]"

subsection \<open>Numbers\<close>

text \<open>
  A JavaScript number is an IEEE 754 double: NaN, an infinity, or a finite value, which is
  a real number. The handler only compares, rounds and floors numbers; these operations
  are exact on doubles, so they are modelled on the reals the doubles denote. The two
  zeros are identified (\<open>-0 === 0\<close> in JavaScript).
\<close>

datatype jsnum = NaN | PosInf | NegInf | Fin real

fun Number_isFinite :: "jsnum \<Rightarrow> bool" where
  "Number_isFinite (Fin x) = True"
| "Number_isFinite _ = False"

text \<open>\<open>Math.round\<close> is \<open>floor(x + 0.5)\<close>, which is what \<^const>\<open>round\<close> computes.\<close>

fun Math_round :: "jsnum \<Rightarrow> jsnum" where
  "Math_round (Fin x) = Fin (of_int (round x))"
| "Math_round n = n"

fun Math_floor :: "jsnum \<Rightarrow> jsnum" where
  "Math_floor (Fin x) = Fin (of_int \<lfloor>x\<rfloor>)"
| "Math_floor n = n"

fun Math_max :: "jsnum \<Rightarrow> jsnum \<Rightarrow> jsnum" where
  "Math_max NaN y = NaN"
| "Math_max x NaN = NaN"
| "Math_max PosInf y = PosInf"
| "Math_max x PosInf = PosInf"
| "Math_max NegInf y = y"
| "Math_max x NegInf = x"
| "Math_max (Fin a) (Fin b) = Fin (max a b)"

fun Math_min :: "jsnum \<Rightarrow> jsnum \<Rightarrow> jsnum" where
  "Math_min NaN y = NaN"
| "Math_min x NaN = NaN"
| "Math_min NegInf y = NegInf"
| "Math_min x NegInf = NegInf"
| "Math_min PosInf y = y"
| "Math_min x PosInf = x"
| "Math_min (Fin a) (Fin b) = Fin (min a b)"

subsection \<open>Values\<close>

text \<open>
  The values the handler touches: what \<open>request.json()\<close> can return, what the AI binding
  returns (JSON-like objects, or binary data such as a byte stream), and what is thrown.
  \<open>Obj\<close> lists the own properties of an object, each key once.
\<close>

datatype jsval =
    Undefined
  | Null
  | Bool bool
  | Num jsnum
  | Str jsstring
  | Arr "jsval list"
  | Obj "(jsstring \<times> jsval) list"
  | Binary "8 word list"

fun truthy :: "jsval \<Rightarrow> bool" where
  "truthy Undefined = False"
| "truthy Null = False"
| "truthy (Bool b) = b"
| "truthy (Num n) = (n \<noteq> NaN \<and> n \<noteq> Fin 0)"
| "truthy (Str s) = (s \<noteq> [])"
| "truthy (Arr xs) = True"
| "truthy (Obj kvs) = True"
| "truthy (Binary bs) = True"

text \<open>
  \<open>v.k\<close> for a value that is neither \<open>null\<close> nor \<open>undefined\<close> and a key \<open>k\<close> that no
  prototype defines (every key the handler reads from the body and from results, other than
  \<open>trim\<close>, is such a key): the own property, or \<open>undefined\<close>.
\<close>

fun get :: "jsval \<Rightarrow> jsstring \<Rightarrow> jsval" where
  "get (Obj kvs) k = (case map_of kvs k of Some v \<Rightarrow> v | None \<Rightarrow> Undefined)"
| "get v k = Undefined"

text \<open>\<open>a ?? b\<close>.\<close>

fun nullish :: "jsval \<Rightarrow> jsval \<Rightarrow> jsval" where
  "nullish Undefined d = d"
| "nullish Null d = d"
| "nullish v d = v"

text \<open>The \<open>TypeError\<close> the engine throws; its message is engine-specific and left out.\<close>

definition TypeError :: jsval where
  "TypeError = Obj [(js ''name'', Str (js ''TypeError''))]"

section \<open>The worker\<close>

subsection \<open>Configuration, platform, requests and responses\<close>

datatype ai_result = Throws jsval | Resolves jsval

text \<open>
  \<open>Env\<close>: the optional strings of the configuration and the AI binding. \<open>AI env m inputs\<close> is
  the outcome of \<open>await env.AI.run(m, inputs)\<close>, where \<open>inputs\<close> lists the properties of the
  object literal passed.
\<close>

record env =
  AI :: "jsstring \<Rightarrow> (jsstring \<times> jsval) list \<Rightarrow> ai_result"
  API_KEY :: "jsstring option"
  ALLOWED_ORIGIN :: "jsstring option"
  ALLOWED_ORIGINS :: "jsstring option"

text \<open>
  What the handler uses of the runtime, as parameters: \<open>String(v)\<close> for a value that is not
  a string, \<open>atob\<close> (which throws on input that is not base64), and the check of a header
  value by \<open>new Headers(init)\<close> (\<open>Some e\<close>: it throws \<open>e\<close>).
\<close>

record platform =
  String_of :: "jsval \<Rightarrow> jsstring"
  atob :: "jsstring \<Rightarrow> jsval + jsstring"
  Headers_reject :: "jsstring \<Rightarrow> jsval option"

text \<open>
  A request: its method, \<open>new URL(request.url).pathname\<close>, \<open>request.headers.get\<close> as a map
  on the names the handler asks for (\<open>None\<close>: the header is absent and \<open>get\<close> returns
  \<open>null\<close>), and the outcome of \<open>await request.json()\<close> (\<open>None\<close>: it throws).
\<close>

record request =
  "method" :: jsstring
  pathname :: jsstring
  hdrs :: "jsstring \<rightharpoonup> jsstring"
  json :: "jsval option"

record response =
  status :: nat
  body :: jsval
  headers :: "jsstring \<rightharpoonup> jsstring"

text \<open>
  What one run of the handler does: it resolves with a response or rejects with a thrown
  value (\<open>Inl\<close>), after the listed calls of \<open>env.AI.run\<close>.
\<close>

record outcome =
  result :: "jsval + response"
  calls :: "(jsstring \<times> (jsstring \<times> jsval) list) list"

text \<open>
  \<open>String(v)\<close>, also the conversion in a template literal and of a header value. The
  conversion is taken to return: for an object whose \<open>toString\<close> and \<open>valueOf\<close> are not
  functions it throws a \<open>TypeError\<close> instead, which the model leaves out.
\<close>

definition toString :: "platform \<Rightarrow> jsval \<Rightarrow> jsstring" where
  "toString pf v = (case v of Str s \<Rightarrow> s | _ \<Rightarrow> String_of pf v)"

subsection \<open>trimToMaxPrompt\<close>

definition MAX_PROMPT_CHARS :: nat where
  "MAX_PROMPT_CHARS = 2048"

text \<open>
  \<open>s ?? ""\<close> is \<open>s\<close> for a string. \<open>t.slice(t.length - maxChars)\<close> is taken only when
  \<open>t.length > maxChars\<close>, where it drops the first \<open>t.length - maxChars\<close> code units.
\<close>

definition trimToMaxPrompt :: "jsstring \<Rightarrow> nat \<Rightarrow> jsstring" where
  "trimToMaxPrompt s maxChars =
     (let t = trim s in
      if length t \<le> maxChars then t else drop (length t - maxChars) t)"

subsection \<open>parseAllowedOrigins and corsHeaders\<close>

definition default_origins :: "jsstring set" where
  "default_origins =
     {js ''http://localhost:8080'', js ''http://127.0.0.1:8080'', js ''http://[::1]:8080'',
      js ''https://www.webhtml5.info'', js ''https://webhtml5.info''}"

text \<open>
  The body of the loop over \<open>env.ALLOWED_ORIGINS.split(",")\<close>. A condition \<open>env.X?.trim()\<close>
  holds when the option is set and its trimmed value is not empty.
\<close>

definition add_part :: "jsstring \<Rightarrow> jsstring set \<Rightarrow> jsstring set" where
  "add_part part s = (let o' = trim part in if o' \<noteq> [] then insert o' s else s)"

definition parseAllowedOrigins :: "env \<Rightarrow> jsstring set" where
  "parseAllowedOrigins env =
     (let s = default_origins;
          s = (case ALLOWED_ORIGIN env of
                 None \<Rightarrow> s
               | Some v \<Rightarrow> if trim v \<noteq> [] then insert (trim v) s else s)
      in case ALLOWED_ORIGINS env of
           None \<Rightarrow> s
         | Some l \<Rightarrow> if trim l \<noteq> [] then fold add_part (split comma l) s else s)"

definition ACAO :: jsstring where
  "ACAO = js ''Access-Control-Allow-Origin''"

definition corsHeaders :: "request \<Rightarrow> env \<Rightarrow> jsstring \<rightharpoonup> jsstring" where
  "corsHeaders request env =
     (let origin = (case hdrs request (js ''Origin'') of None \<Rightarrow> [] | Some v \<Rightarrow> v);
          allowed = parseAllowedOrigins env;
          headers =
            [js ''Vary'' \<mapsto> js ''Origin'',
             js ''Access-Control-Allow-Methods'' \<mapsto> js ''POST, OPTIONS'',
             js ''Access-Control-Allow-Headers'' \<mapsto> js ''Content-Type, Authorization'',
             js ''Access-Control-Max-Age'' \<mapsto> js ''86400'',
             js ''Access-Control-Expose-Headers'' \<mapsto>
               js ''X-Model, X-Steps, X-Style, X-Num-Steps, X-Guidance, X-Prompt-Chars'']
      in if origin \<noteq> [] \<and> origin \<in> allowed then headers(ACAO \<mapsto> origin) else headers)"

subsection \<open>respond\<close>

text \<open>
  \<open>new Headers(init.headers)\<close> for an object literal (each name once): every value is
  converted to a string and checked; the first one the runtime rejects makes the
  constructor throw.
\<close>

fun Headers_new :: "platform \<Rightarrow> (jsstring \<times> jsval) list \<Rightarrow> jsval + (jsstring \<rightharpoonup> jsstring)" where
  "Headers_new pf [] = Inr Map.empty"
| "Headers_new pf ((k, v) # rest) =
     (case Headers_reject pf (toString pf v) of
        Some e \<Rightarrow> Inl e
      | None \<Rightarrow>
          (case Headers_new pf rest of
             Inl e \<Rightarrow> Inl e
           | Inr h \<Rightarrow> Inr (h(k \<mapsto> toString pf v))))"

text \<open>
  The values \<open>respond\<close> sets from \<open>corsHeaders\<close> are fixed strings and the request's own
  \<open>Origin\<close>, which \<open>Headers.set\<close> accepts; they replace an entry of the same name. Header
  names are kept as written: the names the handler uses differ pairwise also when case is
  ignored, as \<open>Headers\<close> does. The headers are those the handler sets: a header that
  \<open>new Response\<close> adds by itself (a \<open>Content-Type\<close> for a string body) is left out.
\<close>

definition respond ::
  "platform \<Rightarrow> request \<Rightarrow> env \<Rightarrow> jsval \<Rightarrow> nat \<Rightarrow> (jsstring \<times> jsval) list \<Rightarrow> jsval + response" where
  "respond pf request env b st init =
     (case Headers_new pf init of
        Inl e \<Rightarrow> Inl e
      | Inr h \<Rightarrow> Inr \<lparr>status = st, body = b, headers = h ++ corsHeaders request env\<rparr>)"

subsection \<open>buildStyledPrompt\<close>

definition antiText :: jsstring where
  "antiText =
     js ''ABSOLUTELY NO TEXT: no letters, no words, no numbers, no symbols, no signage, no labels, no captions, ''
     @ js ''no book covers with titles, no misspellings, no gibberish. ''
     @ js ''If any sign, poster, menu, label, packaging, screen, or book spine appears, it must be BLANK and UNREADABLE. ''
     @ js ''No logos, no watermark, no signature.''"

definition avoidTextProps :: jsstring where
  "avoidTextProps =
     js ''Avoid text-bearing elements: posters, banners, street signs, storefront signs, menus, UI screens, labels, packaging, ''
     @ js ''newspapers, magazines, chalkboards, whiteboards, license plates, book spines with titles. Prefer plain surfaces and simple shapes.''"

definition cropSafe :: jsstring where
  "cropSafe =
     js ''Keep key subjects centered with generous margins; avoid important details near edges (crop-safe 16:9).''"

definition baseSafety :: jsstring where
  "baseSafety =
     js ''Family-friendly. Natural proportions. No gore. No violence. No weapons. No horror imagery.''"

definition storybook :: jsstring where
  "storybook =
     js ''Storybook illustration, warm cinematic lighting, clean composition, soft depth of field, high detail.''"

definition animated3d :: jsstring where
  "animated3d =
     js ''High-quality 3D animated family film look, soft global illumination, warm rim light, detailed materials, subtle subsurface scattering, ''
     @ js ''clean shapes, cinematic depth of field, sharp focus on subject, ultra clean render.''"

text \<open>
  \<open>style\<close> is declared a string, and is at run time whatever \<open>body.style ?? "storybook"\<close> is;
  \<open>===\<close> holds for the string \<open>"animated3d"\<close> only.
\<close>

definition styleLine :: "jsval \<Rightarrow> jsstring" where
  "styleLine style = (if style = Str (js ''animated3d'') then animated3d else storybook)"

text \<open>
  The template literal \<open>full\<close>: the trimmed prompt, an empty line, and the five clauses, one
  per line.
\<close>

definition full :: "jsstring \<Rightarrow> jsval \<Rightarrow> jsstring" where
  "full userPrompt style =
     trim userPrompt @ nl @ nl @ cropSafe @ nl @ styleLine style @ nl @ antiText @ nl
       @ avoidTextProps @ nl @ baseSafety"

definition buildStyledPrompt :: "jsstring \<Rightarrow> jsval \<Rightarrow> jsstring" where
  "buildStyledPrompt userPrompt style = trimToMaxPrompt (full userPrompt style) MAX_PROMPT_CHARS"

subsection \<open>clampInt and clampNum\<close>

definition clampInt :: "jsval \<Rightarrow> jsnum \<Rightarrow> jsnum \<Rightarrow> jsnum \<Rightarrow> jsnum" where
  "clampInt n min' max' fallback =
     (let v = (case n of
                 Num x \<Rightarrow> if Number_isFinite x then Math_round x else fallback
               | _ \<Rightarrow> fallback)
      in Math_min max' (Math_max min' v))"

definition clampNum :: "jsval \<Rightarrow> jsnum \<Rightarrow> jsnum \<Rightarrow> jsnum \<Rightarrow> jsnum" where
  "clampNum n min' max' fallback =
     (let v = (case n of
                 Num x \<Rightarrow> if Number_isFinite x then x else fallback
               | _ \<Rightarrow> fallback)
      in Math_min max' (Math_max min' v))"

subsection \<open>fetch\<close>

definition settled :: "jsval + response \<Rightarrow> outcome" where
  "settled r = \<lparr>result = r, calls = []\<rparr>"

text \<open>
  The \<open>catch\<close> blocks of both backends:
  \<open>(e && (e.message || String(e))) ? String(e.message || e) : "AI run error"\<close>.
\<close>

definition upstream_msg :: "platform \<Rightarrow> jsval \<Rightarrow> jsstring" where
  "upstream_msg pf e =
     (if truthy e \<and> (truthy (get e (js ''message'')) \<or> toString pf e \<noteq> [])
      then toString pf (if truthy (get e (js ''message'')) then get e (js ''message'') else e)
      else js ''AI run error'')"

definition upstream_error :: "platform \<Rightarrow> request \<Rightarrow> env \<Rightarrow> jsval \<Rightarrow> jsval + response" where
  "upstream_error pf request env e =
     respond pf request env (Str (js ''Upstream AI error: '' @ upstream_msg pf e)) 502 []"

text \<open>\<open>try { ... } catch (e) { ... }\<close> around a block that returns.\<close>

definition try_catch :: "jsval + response \<Rightarrow> (jsval \<Rightarrow> jsval + response) \<Rightarrow> jsval + response" where
  "try_catch block handler = (case block of Inl e \<Rightarrow> handler e | Inr r \<Rightarrow> Inr r)"

text \<open>\<open>...(typeof body.seed === "number" ? { seed: Math.floor(body.seed) } : {})\<close>.\<close>

definition seed_spread :: "jsval \<Rightarrow> (jsstring \<times> jsval) list" where
  "seed_spread b =
     (case get b (js ''seed'') of
        Num x \<Rightarrow> [(js ''seed'', Num (Math_floor x))]
      | _ \<Rightarrow> [])"

definition FLUX :: jsstring where
  "FLUX = js ''@cf/black-forest-labs/flux-1-schnell''"

definition SDXL :: jsstring where
  "SDXL = js ''@cf/stabilityai/stable-diffusion-xl-base-1.0''"

text \<open>\<open>response?.image\<close>.\<close>

definition optional_get :: "jsval \<Rightarrow> jsstring \<Rightarrow> jsval" where
  "optional_get v k = (if v = Null \<or> v = Undefined then Undefined else get v k)"

text \<open>
  The flux branch. \<open>atob\<close> returns a binary string (code units up to 255), whose code units
  are the bytes of the image.
\<close>

definition flux_inputs :: "jsval \<Rightarrow> jsstring \<Rightarrow> jsnum \<Rightarrow> (jsstring \<times> jsval) list" where
  "flux_inputs b prompt steps =
     [(js ''prompt'', Str prompt), (js ''steps'', Num steps)] @ seed_spread b"

definition run_flux :: "platform \<Rightarrow> request \<Rightarrow> env \<Rightarrow> jsval \<Rightarrow> jsval \<Rightarrow> jsstring \<Rightarrow> outcome" where
  "run_flux pf request env b style prompt =
     (let steps = clampInt (get b (js ''steps'')) (Fin 1) (Fin 8) (Fin 6);
          inputs = flux_inputs b prompt steps
      in \<lparr>result =
            try_catch
              (case AI env FLUX inputs of
                 Throws e \<Rightarrow> Inl e
               | Resolves response \<Rightarrow>
                   (case optional_get response (js ''image'') of
                      Str b64 \<Rightarrow>
                        if b64 = [] then
                          respond pf request env (Str (js ''Model returned no image'')) 502 []
                        else
                          (case atob pf b64 of
                             Inl e \<Rightarrow> Inl e
                           | Inr binaryString \<Rightarrow>
                               respond pf request env (Binary (map ucast binaryString)) 200
                                 [(js ''Content-Type'', Str (js ''image/jpeg'')),
                                  (js ''Cache-Control'', Str (js ''no-store'')),
                                  (js ''X-Model'', Str (js ''flux-1-schnell'')),
                                  (js ''X-Steps'', Str (toString pf (Num steps))),
                                  (js ''X-Style'', style),
                                  (js ''X-Prompt-Chars'',
                                     Str (toString pf (Num (Fin (of_nat (length prompt))))))])
                    | _ \<Rightarrow> respond pf request env (Str (js ''Model returned no image'')) 502 []))
              (upstream_error pf request env),
          calls = [(FLUX, inputs)]\<rparr>)"

definition strongNoTextNegative :: jsstring where
  "strongNoTextNegative =
     js ''text, letters, words, typography, caption, subtitle, title, logo, watermark, signature, ''
     @ js ''signage, street sign, label, menu, poster, banner, book cover text, misspelling, gibberish, ''
     @ js ''license plate, UI, screen text, packaging text, ''
     @ js ''low quality, blurry, grain, noise, deformed, malformed hands, extra fingers''"

definition sdxl_inputs ::
  "platform \<Rightarrow> jsval \<Rightarrow> jsstring \<Rightarrow> jsnum \<Rightarrow> jsnum \<Rightarrow> jsnum \<Rightarrow> jsnum \<Rightarrow> (jsstring \<times> jsval) list" where
  "sdxl_inputs pf b prompt width height num_steps guidance =
     [(js ''prompt'', Str prompt),
      (js ''negative_prompt'',
         Str (if truthy (get b (js ''negative_prompt''))
              then toString pf (get b (js ''negative_prompt'')) @ js '', '' @ strongNoTextNegative
              else strongNoTextNegative)),
      (js ''width'', Num width),
      (js ''height'', Num height),
      (js ''num_steps'', Num num_steps),
      (js ''guidance'', Num guidance)] @ seed_spread b"

definition run_sdxl :: "platform \<Rightarrow> request \<Rightarrow> env \<Rightarrow> jsval \<Rightarrow> jsval \<Rightarrow> jsstring \<Rightarrow> outcome" where
  "run_sdxl pf request env b style prompt =
     (let width = clampInt (get b (js ''width'')) (Fin 256) (Fin 2048) (Fin 1344);
          height = clampInt (get b (js ''height'')) (Fin 256) (Fin 2048) (Fin 768);
          num_steps = clampInt (get b (js ''num_steps'')) (Fin 1) (Fin 20) (Fin 20);
          guidance = clampNum (get b (js ''guidance'')) (Fin 1) (Fin 20) (Fin (15 / 2));
          inputs = sdxl_inputs pf b prompt width height num_steps guidance
      in \<lparr>result =
            try_catch
              (case AI env SDXL inputs of
                 Throws e \<Rightarrow> Inl e
               | Resolves imgBytes \<Rightarrow>
                   respond pf request env imgBytes 200
                     [(js ''Content-Type'', Str (js ''image/jpeg'')),
                      (js ''Cache-Control'', Str (js ''no-store'')),
                      (js ''X-Model'', Str (js ''sdxl-base-1.0'')),
                      (js ''X-Num-Steps'', Str (toString pf (Num num_steps))),
                      (js ''X-Guidance'', Str (toString pf (Num guidance))),
                      (js ''X-Style'', style),
                      (js ''X-Prompt-Chars'',
                         Str (toString pf (Num (Fin (of_nat (length prompt))))))])
              (upstream_error pf request env),
          calls = [(SDXL, inputs)]\<rparr>)"

text \<open>
  The handler from \<open>let body\<close> on. \<open>body.prompt\<close> throws a \<open>TypeError\<close> when the body is
  \<open>null\<close>, and so does \<open>body.prompt.trim()\<close> when \<open>body.prompt\<close> is truthy and not a string
  (it has no function \<open>trim\<close>); neither is inside a \<open>try\<close>.
\<close>

definition generate :: "platform \<Rightarrow> request \<Rightarrow> env \<Rightarrow> outcome" where
  "generate pf request env =
     (case json request of
        None \<Rightarrow> settled (respond pf request env (Str (js ''Invalid JSON'')) 400 [])
      | Some b \<Rightarrow>
          if b = Null \<or> b = Undefined then settled (Inl TypeError)
          else if \<not> truthy (get b (js ''prompt'')) then
            settled (respond pf request env (Str (js ''prompt is required'')) 400 [])
          else
            (case get b (js ''prompt'') of
               Str p \<Rightarrow>
                 if length (trim p) < 3 then
                   settled (respond pf request env (Str (js ''prompt is required'')) 400 [])
                 else
                   (let model = nullish (get b (js ''model'')) (Str (js ''flux''));
                        style = nullish (get b (js ''style'')) (Str (js ''storybook''));
                        prompt = buildStyledPrompt p style
                    in if model = Str (js ''flux'') then run_flux pf request env b style prompt
                       else run_sdxl pf request env b style prompt)
             | _ \<Rightarrow> settled (Inl TypeError)))"

text \<open>The bearer token of the request: \<open>auth.startsWith("Bearer ") ? auth.slice(7) : ""\<close>.\<close>

definition token :: "request \<Rightarrow> jsstring" where
  "token request =
     (let auth = (case hdrs request (js ''Authorization'') of None \<Rightarrow> [] | Some a \<Rightarrow> a)
      in if startsWith auth (js ''Bearer '') then drop 7 auth else [])"

definition version_text :: jsstring where
  "version_text = js ''ebook-image-forge v5 (prompt<=2048 + resilient CORS + stronger no-text)''"

definition fetch :: "platform \<Rightarrow> request \<Rightarrow> env \<Rightarrow> outcome" where
  "fetch pf request env =
     (if pathname request = js ''/__version'' then
        settled (respond pf request env (Str version_text) 200 [])
      else if method request = js ''OPTIONS'' then
        settled (respond pf request env Null 204 [])
      else if pathname request \<noteq> js ''/api/generate'' then
        settled (respond pf request env (Str (js ''Not found'')) 404 [])
      else if method request \<noteq> js ''POST'' then
        settled (respond pf request env (Str (js ''Method not allowed'')) 405 [])
      else if (case API_KEY env of None \<Rightarrow> False | Some key \<Rightarrow> key \<noteq> [] \<and> token request \<noteq> key) then
        settled (respond pf request env (Str (js ''Unauthorized'')) 401 [])
      else generate pf request env)"

section \<open>Definitions used in the statements\<close>

text \<open>The five fixed clauses of \<open>full\<close>, from \<open>cropSafe\<close> on.\<close>

definition clauses :: "jsval \<Rightarrow> jsstring" where
  "clauses style =
     cropSafe @ nl @ styleLine style @ nl @ antiText @ nl @ avoidTextProps @ nl @ baseSafety"

text \<open>
  The concatenation as the specification words it, for comparison with \<open>full\<close>: the same
  parts in the same order, with a blank line between each adjacent pair.
\<close>

definition spec_full :: "jsstring \<Rightarrow> jsval \<Rightarrow> jsstring" where
  "spec_full userPrompt style =
     trim userPrompt @ nl @ nl @ cropSafe @ nl @ nl @ styleLine style @ nl @ nl @ antiText
       @ nl @ nl @ avoidTextProps @ nl @ nl @ baseSafety"

text \<open>A prompt of 3000 letters, longer than the budget.\<close>

definition long_prompt :: jsstring where
  "long_prompt = replicate 3000 (u16 CHR ''a'')"

text \<open>
  The allowlist as the specification words it: the default origins, the trimmed single
  origin, and the trimmed entries of the comma-separated list, an entry that is empty
  after trimming being dropped.
\<close>

definition allowlist :: "env \<Rightarrow> jsstring set" where
  "allowlist env =
     default_origins
     \<union> (case ALLOWED_ORIGIN env of None \<Rightarrow> {} | Some v \<Rightarrow> {trim v} - {[]})
     \<union> (case ALLOWED_ORIGINS env of None \<Rightarrow> {} | Some l \<Rightarrow> trim ` set (split comma l) - {[]})"

text \<open>
  What every response built by \<open>respond\<close> satisfies, given that the headers of its own do
  not name \<open>Access-Control-Allow-Origin\<close>: the status is one of \<open>S\<close>, every header of
  \<open>corsHeaders\<close> is there, and the allow-origin header is as \<open>corsHeaders\<close> decides.
\<close>

definition carries_cors :: "request \<Rightarrow> env \<Rightarrow> nat set \<Rightarrow> jsval + response \<Rightarrow> bool" where
  "carries_cors request env S x =
     (case x of
        Inl e \<Rightarrow> True
      | Inr r \<Rightarrow> status r \<in> S \<and> corsHeaders request env \<subseteq>\<^sub>m headers r
                 \<and> headers r ACAO = corsHeaders request env ACAO)"

subsection \<open>Concrete runs\<close>

text \<open>
  A platform that accepts every header value, and configurations whose AI binding always
  throws: no secret or the given one, and the default origins or the given list.
\<close>

definition demo_platform :: platform where
  "demo_platform = \<lparr>String_of = (\<lambda>v. js ''[value]''), atob = Inr, Headers_reject = (\<lambda>s. None)\<rparr>"

definition demo_env :: "jsstring option \<Rightarrow> jsstring option \<Rightarrow> env" where
  "demo_env key origins =
     \<lparr>AI = (\<lambda>m inputs. Throws Undefined), API_KEY = key, ALLOWED_ORIGIN = None,
      ALLOWED_ORIGINS = origins\<rparr>"

definition listed_env :: env where
  "listed_env = demo_env None (Some (js ''http://a.io, ,http://b.io ''))"

definition secret_env :: env where
  "secret_env = demo_env (Some (js ''s3cret'')) None"

text \<open>Requests: a \<open>GET /\<close> from an origin, a request without headers or body, and a
  \<open>POST /api/generate\<close> with the given headers and parsed body.\<close>

definition get_root :: "jsstring \<Rightarrow> request" where
  "get_root origin =
     \<lparr>method = js ''GET'', pathname = js ''/'', hdrs = [js ''Origin'' \<mapsto> origin], json = None\<rparr>"

definition bare :: "jsstring \<Rightarrow> jsstring \<Rightarrow> request" where
  "bare m p = \<lparr>method = m, pathname = p, hdrs = Map.empty, json = None\<rparr>"

definition post_generate :: "(jsstring \<rightharpoonup> jsstring) \<Rightarrow> jsval option \<Rightarrow> request" where
  "post_generate h b =
     \<lparr>method = js ''POST'', pathname = js ''/api/generate'', hdrs = h, json = b\<rparr>"

definition wrong_bearer :: request where
  "wrong_bearer =
     post_generate
       [js ''Origin'' \<mapsto> js ''https://webhtml5.info'',
        js ''Authorization'' \<mapsto> js ''Bearer wrong''] None"

text \<open>The body \<open>{"prompt": "a fox", "seed": seed}\<close> and the inputs the flux branch builds
  from it.\<close>

definition fox_body :: "jsval \<Rightarrow> jsval" where
  "fox_body seed = Obj [(js ''prompt'', Str (js ''a fox'')), (js ''seed'', seed)]"

definition fox_inputs :: "jsval \<Rightarrow> (jsstring \<times> jsval) list" where
  "fox_inputs seed =
     flux_inputs (fox_body seed) (buildStyledPrompt (js ''a fox'') (Str (js ''storybook''))) (Fin 6)"

text \<open>The same for the body \<open>{"prompt": "a fox", "model": "sdxl", "seed": seed}\<close>.\<close>

definition sdxl_body :: "jsval \<Rightarrow> jsval" where
  "sdxl_body seed =
     Obj [(js ''prompt'', Str (js ''a fox'')), (js ''model'', Str (js ''sdxl'')), (js ''seed'', seed)]"

definition sdxl_fox_inputs :: "jsval \<Rightarrow> (jsstring \<times> jsval) list" where
  "sdxl_fox_inputs seed =
     sdxl_inputs demo_platform (sdxl_body seed)
       (buildStyledPrompt (js ''a fox'') (Str (js ''storybook'')))
       (Fin 1344) (Fin 768) (Fin 20) (Fin (15 / 2))"

section \<open>Strings and the prompt composer\<close>

lemma unat_u16: "unat (u16 c) = of_char c"
proof -
  have "(of_char c :: nat) < 256" by simp
  then have "(of_char c :: nat) < 65536" by linarith
  then show ?thesis unfolding u16_def by (simp add: unat_of_nat)
qed

lemma u16_eq_iff: "u16 a = u16 b \<longleftrightarrow> a = b"
  by (metis unat_u16 of_char_eq_iff)

lemma js_eq_iff: "js a = js b \<longleftrightarrow> a = b"
  unfolding js_def by (simp add: inj_map_eq_map[OF injI] u16_eq_iff inj_on_def)

lemma length_js: "length (js s) = length s"
  by (simp add: js_def)

lemma trim_prefix: "\<exists>t. dropWhile is_ws s = trim s @ t"
proof -
  let ?d = "dropWhile is_ws s"
  have "?d = rev (takeWhile is_ws (rev ?d) @ dropWhile is_ws (rev ?d))"
    by (simp only: takeWhile_dropWhile_id rev_rev_ident)
  also have "\<dots> = rev (dropWhile is_ws (rev ?d)) @ rev (takeWhile is_ws (rev ?d))"
    by (rule rev_append)
  finally have "?d = trim s @ rev (takeWhile is_ws (rev ?d))"
    by (simp only: trim_def)
  then show ?thesis ..
qed

lemma hd_trim: assumes "trim s \<noteq> []" shows "\<not> is_ws (hd (trim s))"
proof -
  obtain t where t: "dropWhile is_ws s = trim s @ t" using trim_prefix by blast
  with assms have ne: "dropWhile is_ws s \<noteq> []" by auto
  from t assms have "hd (trim s) = hd (dropWhile is_ws s)" by simp
  with ne show ?thesis by (simp add: hd_dropWhile)
qed

lemma trim_id:
  assumes "xs \<noteq> []" "\<not> is_ws (hd xs)" "\<not> is_ws (last xs)"
  shows "trim xs = xs"
proof -
  from assms have 1: "dropWhile is_ws xs = xs" by (cases xs) auto
  from assms have "rev xs \<noteq> []" "\<not> is_ws (hd (rev xs))" by (simp_all add: hd_rev)
  then have "dropWhile is_ws (rev xs) = rev xs" by (cases "rev xs") auto
  with 1 show ?thesis by (simp add: trim_def)
qed

lemma trim_ws_Cons: "is_ws c \<Longrightarrow> trim (c # xs) = trim xs"
  by (simp add: trim_def)

lemma is_ws_nl: "is_ws 0x0A" by (simp add: is_ws_def)

lemma len_cropSafe: "length cropSafe = 102" by (simp add: cropSafe_def length_js)
lemma len_antiText: "length antiText = 307" by (simp add: antiText_def length_js)
lemma len_avoid: "length avoidTextProps = 247" by (simp add: avoidTextProps_def length_js)
lemma len_base: "length baseSafety = 90" by (simp add: baseSafety_def length_js)
lemma len_story: "length storybook = 101" by (simp add: storybook_def length_js)
lemma len_anim: "length animated3d = 218" by (simp add: animated3d_def length_js)
lemma len_nl: "length nl = 1" by (simp add: nl_def)

lemmas clause_lengths = len_cropSafe len_antiText len_avoid len_base len_story len_anim len_nl

lemma len_styleLine: "length (styleLine style) = (if style = Str (js ''animated3d'') then 218 else 101)"
  by (simp add: styleLine_def len_story len_anim)

lemma last_baseSafety: "\<not> is_ws (last baseSafety)"
  by (simp add: baseSafety_def js_def u16_def is_ws_def)
lemma hd_cropSafe: "\<not> is_ws (hd cropSafe)"
  by (simp add: cropSafe_def js_def u16_def is_ws_def)
lemma baseSafety_ne: "baseSafety \<noteq> []" using len_base by auto
lemma cropSafe_ne: "cropSafe \<noteq> []" using len_cropSafe by auto

lemma full_clauses: "full u st = trim u @ nl @ nl @ clauses st"
  by (simp add: full_def clauses_def)

lemma len_clauses: "length (clauses st) = (if st = Str (js ''animated3d'') then 968 else 851)"
  by (simp add: clauses_def clause_lengths len_styleLine)

lemma trim_clauses: "trim (clauses st) = clauses st"
proof (rule trim_id)
  show "clauses st \<noteq> []" using cropSafe_ne by (simp add: clauses_def)
  show "\<not> is_ws (hd (clauses st))" using cropSafe_ne hd_cropSafe by (simp add: clauses_def)
  show "\<not> is_ws (last (clauses st))" using baseSafety_ne last_baseSafety by (simp add: clauses_def)
qed

lemma last_full: "\<not> is_ws (last (full u st))"
  using baseSafety_ne last_baseSafety by (simp add: full_def)

lemma trim_full:
  "trim (full u st) = (if trim u = [] then clauses st else full u st)"
proof (cases "trim u = []")
  case True
  then have "full u st = 0x0A # 0x0A # clauses st" by (simp add: full_clauses nl_def)
  then show ?thesis using True by (simp add: trim_ws_Cons is_ws_nl trim_clauses)
next
  case False
  then have "hd (full u st) = hd (trim u)" by (simp add: full_def)
  moreover have "full u st \<noteq> []" using False by (simp add: full_def)
  ultimately have "trim (full u st) = full u st"
    using hd_trim[OF False] last_full by (intro trim_id) simp_all
  then show ?thesis using False by simp
qed

lemma buildStyledPrompt_eq:
  "buildStyledPrompt u st =
     (if trim u = [] then clauses st
      else if length (full u st) \<le> 2048 then full u st
      else drop (length (full u st) - 2048) (full u st))"
  by (simp add: buildStyledPrompt_def trimToMaxPrompt_def MAX_PROMPT_CHARS_def trim_full Let_def len_clauses)

lemma trim_fox: "trim (js ''a fox'') = js ''a fox''"
  by (simp add: trim_def js_def u16_def is_ws_def)


lemma len_fox: "length (js ''a fox'') = 5" by (simp add: length_js)

lemma len_full_fox: "length (full (js ''a fox'') (Str (js ''storybook''))) = 858"
  by (simp add: full_clauses len_clauses trim_fox len_fox len_nl js_eq_iff)

lemma trim_long: "trim long_prompt = long_prompt"
  by (rule trim_id) (simp_all add: long_prompt_def u16_def is_ws_def)

lemma len_full_long: "length (full long_prompt (Str (js ''storybook''))) = 3853"
  by (simp add: full_clauses len_clauses trim_long len_nl js_eq_iff) (simp add: long_prompt_def)

text \<open>
  Claim C1, as amended. For every user prompt and style the composed prompt has at most
  2048 code units. When the trimmed user prompt is not empty (the handler only composes
  prompts whose trimmed length is at least 3): if the concatenation \<open>full\<close> is longer than
  2048, the result is exactly its last 2048 code units, and otherwise it is the
  concatenation unchanged. When the trimmed user prompt is empty, \<open>trimToMaxPrompt\<close> trims
  the leading blank line away: the result is the concatenation without its first two
  code units.
\<close>

theorem buildStyledPrompt_truncation:
  "length (buildStyledPrompt userPrompt style) \<le> 2048 \<and>
   (trim userPrompt \<noteq> [] \<longrightarrow>
      (2048 < length (full userPrompt style) \<longrightarrow>
         length (buildStyledPrompt userPrompt style) = 2048 \<and>
         buildStyledPrompt userPrompt style =
           drop (length (full userPrompt style) - 2048) (full userPrompt style)) \<and>
      (length (full userPrompt style) \<le> 2048 \<longrightarrow>
         buildStyledPrompt userPrompt style = full userPrompt style)) \<and>
   (trim userPrompt = [] \<longrightarrow> buildStyledPrompt userPrompt style = drop 2 (full userPrompt style))"
  by (simp add: buildStyledPrompt_eq len_clauses) (simp add: full_clauses nl_def)

theorem buildStyledPrompt_truncation_witness:
  "trim (js ''a fox'') \<noteq> [] \<and>
   length (full (js ''a fox'') (Str (js ''storybook''))) \<le> 2048 \<and>
   buildStyledPrompt (js ''a fox'') (Str (js ''storybook'')) = full (js ''a fox'') (Str (js ''storybook'')) \<and>
   trim long_prompt \<noteq> [] \<and>
   2048 < length (full long_prompt (Str (js ''storybook''))) \<and>
   length (buildStyledPrompt long_prompt (Str (js ''storybook''))) = 2048 \<and>
   buildStyledPrompt long_prompt (Str (js ''storybook'')) =
     drop 1805 (full long_prompt (Str (js ''storybook''))) \<and>
   trim [] = [] \<and>
   buildStyledPrompt [] (Str (js ''storybook'')) = drop 2 (full [] (Str (js ''storybook'')))"
proof -
  have a: "trim (js ''a fox'') \<noteq> []" unfolding trim_fox by (simp add: js_def)
  have b: "trim long_prompt \<noteq> []" by (simp add: trim_long) (simp add: long_prompt_def)
  have c: "trim [] = []" by (simp add: trim_def)
  show ?thesis
    using buildStyledPrompt_truncation [of "js ''a fox''" "Str (js ''storybook'')"]
      buildStyledPrompt_truncation [of long_prompt "Str (js ''storybook'')"]
      buildStyledPrompt_truncation [of "[]" "Str (js ''storybook'')"]
      a b c
    by (simp add: len_full_fox len_full_long)
qed

text \<open>
  The claim as stated fails for the empty prompt: the concatenation fits the budget and the
  result differs from it.
\<close>

theorem buildStyledPrompt_empty_counterexample:
  "length (full [] (Str (js ''storybook''))) \<le> 2048 \<and>
   buildStyledPrompt [] (Str (js ''storybook'')) \<noteq> full [] (Str (js ''storybook''))"
proof -
  have t: "trim [] = []" by (simp add: trim_def)
  have l: "length (full [] (Str (js ''storybook''))) = 853"
    by (simp add: full_clauses len_clauses t len_nl js_eq_iff)
  have "length (buildStyledPrompt [] (Str (js ''storybook''))) = 851"
    by (simp add: buildStyledPrompt_eq t len_clauses js_eq_iff)
  with l show ?thesis by auto
qed

text \<open>
  Claim C9, as amended. The parts of the composed prompt stand in this order: the trimmed
  user prompt, the crop-safe clause, the style clause, the anti-text clause, the
  text-bearing-objects clause and the content-safety clause. When the trimmed user prompt
  is not empty, it comes first (less the code units the budget cuts from its front) and
  is followed by a blank line (two line feeds), and each of the five clauses is separated
  from the next by a single line feed. When the trimmed user prompt is empty, the result
  is the five clauses alone, separated by single line feeds, with no blank line before
  them. The five clauses are never cut.
\<close>

theorem buildStyledPrompt_order:
  "(trim userPrompt \<noteq> [] \<longrightarrow>
      buildStyledPrompt userPrompt style =
        drop (length (full userPrompt style) - 2048) (trim userPrompt) @ nl @ nl @ cropSafe @ nl
          @ styleLine style @ nl @ antiText @ nl @ avoidTextProps @ nl @ baseSafety) \<and>
   (trim userPrompt = [] \<longrightarrow>
      buildStyledPrompt userPrompt style =
        cropSafe @ nl @ styleLine style @ nl @ antiText @ nl @ avoidTextProps @ nl @ baseSafety)"
proof (intro conjI impI)
  assume ne: "trim userPrompt \<noteq> []"
  have le: "length (full userPrompt style) - 2048 \<le> length (trim userPrompt)"
    by (simp add: full_clauses len_clauses len_nl)
  have "buildStyledPrompt userPrompt style =
      drop (length (full userPrompt style) - 2048) (full userPrompt style)"
    using ne by (simp add: buildStyledPrompt_eq)
  also have "\<dots> =
      drop (length (full userPrompt style) - 2048) (trim userPrompt) @ nl @ nl @ clauses style"
    using le by (simp add: full_clauses)
  finally show "buildStyledPrompt userPrompt style =
      drop (length (full userPrompt style) - 2048) (trim userPrompt) @ nl @ nl @ cropSafe @ nl
        @ styleLine style @ nl @ antiText @ nl @ avoidTextProps @ nl @ baseSafety"
    by (simp add: clauses_def)
next
  assume "trim userPrompt = []"
  then show "buildStyledPrompt userPrompt style =
      cropSafe @ nl @ styleLine style @ nl @ antiText @ nl @ avoidTextProps @ nl @ baseSafety"
    by (simp add: buildStyledPrompt_eq clauses_def)
qed

theorem buildStyledPrompt_order_witness:
  "trim (js ''a fox'') \<noteq> [] \<and>
   buildStyledPrompt (js ''a fox'') (Str (js ''storybook'')) =
     js ''a fox'' @ nl @ nl @ cropSafe @ nl @ storybook @ nl @ antiText @ nl @ avoidTextProps
       @ nl @ baseSafety \<and>
   trim long_prompt \<noteq> [] \<and>
   buildStyledPrompt long_prompt (Str (js ''storybook'')) =
     drop 1805 long_prompt @ nl @ nl @ cropSafe @ nl @ storybook @ nl @ antiText @ nl
       @ avoidTextProps @ nl @ baseSafety \<and>
   trim [] = [] \<and>
   buildStyledPrompt [] (Str (js ''storybook'')) =
     cropSafe @ nl @ storybook @ nl @ antiText @ nl @ avoidTextProps @ nl @ baseSafety \<and>
   trim (js ''   '') = [] \<and>
   buildStyledPrompt (js ''   '') (Str (js ''animated3d'')) =
     cropSafe @ nl @ animated3d @ nl @ antiText @ nl @ avoidTextProps @ nl @ baseSafety"
proof -
  have a: "trim (js ''a fox'') \<noteq> []" unfolding trim_fox by (simp add: js_def)
  have b: "trim long_prompt \<noteq> []" unfolding trim_long by (simp add: long_prompt_def)
  have c: "trim [] = []" by (simp add: trim_def)
  have d: "trim (js ''   '') = []" by (simp add: trim_def js_def u16_def is_ws_def)
  show ?thesis
    using buildStyledPrompt_order [of "js ''a fox''" "Str (js ''storybook'')"]
      buildStyledPrompt_order [of long_prompt "Str (js ''storybook'')"]
      buildStyledPrompt_order [of "[]" "Str (js ''storybook'')"]
      buildStyledPrompt_order [of "js ''   ''" "Str (js ''animated3d'')"]
      a b c d
    by (simp add: len_full_fox len_full_long trim_fox trim_long styleLine_def js_eq_iff)
qed

text \<open>
  The claim as stated puts a blank line between each adjacent pair; the composed prompt
  of \<open>"a fox"\<close> is not that string.
\<close>

theorem buildStyledPrompt_blank_lines_counterexample:
  "buildStyledPrompt (js ''a fox'') (Str (js ''storybook'')) \<noteq> spec_full (js ''a fox'') (Str (js ''storybook''))"
proof -
  have a: "trim (js ''a fox'') \<noteq> []" unfolding trim_fox by (simp add: js_def)
  have "length (buildStyledPrompt (js ''a fox'') (Str (js ''storybook''))) = 858"
    using a by (simp add: buildStyledPrompt_eq len_full_fox)
  moreover have "length (spec_full (js ''a fox'') (Str (js ''storybook''))) = 862"
    by (simp add: spec_full_def trim_fox len_fox clause_lengths len_styleLine js_eq_iff)
  ultimately show ?thesis by auto
qed

section \<open>Clamping\<close>

lemma clampNum_Fin:
  "clampNum n (Fin lo) (Fin hi) fb =
     (case (case n of Num (Fin x) \<Rightarrow> Fin x | _ \<Rightarrow> fb) of
        NaN \<Rightarrow> NaN | PosInf \<Rightarrow> Fin hi | NegInf \<Rightarrow> Fin (min hi lo) | Fin v \<Rightarrow> Fin (min hi (max lo v)))"
proof (cases n)
  case (Num x)
  then show ?thesis by (cases x; cases fb) (simp_all add: clampNum_def)
qed (cases fb; simp add: clampNum_def)+

lemma clampInt_Fin:
  "clampInt n (Fin lo) (Fin hi) fb =
     (case (case n of Num (Fin x) \<Rightarrow> Fin (of_int (round x)) | _ \<Rightarrow> fb) of
        NaN \<Rightarrow> NaN | PosInf \<Rightarrow> Fin hi | NegInf \<Rightarrow> Fin (min hi lo) | Fin v \<Rightarrow> Fin (min hi (max lo v)))"
proof (cases n)
  case (Num x)
  then show ?thesis by (cases x; cases fb) (simp_all add: clampInt_def)
qed (cases fb; simp add: clampInt_def)+

lemma clampNum_idem:
  "clampNum (Num (clampNum n (Fin lo) (Fin hi) fb)) (Fin lo) (Fin hi) fb = clampNum n (Fin lo) (Fin hi) fb"
proof -
  have "clampNum n (Fin lo) (Fin hi) fb = NaN \<and> fb = NaN
      \<or> (\<exists>r. clampNum n (Fin lo) (Fin hi) fb = Fin r \<and> min hi (max lo r) = r)"
  proof (cases n)
    case (Num x)
    then show ?thesis by (cases x; cases fb) (auto simp: clampNum_Fin)
  qed (cases fb; auto simp: clampNum_Fin)+
  then show ?thesis
  proof
    assume "clampNum n (Fin lo) (Fin hi) fb = NaN \<and> fb = NaN"
    then have a: "clampNum n (Fin lo) (Fin hi) fb = NaN" and b: "fb = NaN" by blast+
    show ?thesis unfolding a by (simp add: clampNum_Fin b)
  next
    assume "\<exists>r. clampNum n (Fin lo) (Fin hi) fb = Fin r \<and> min hi (max lo r) = r"
    then obtain r where a: "clampNum n (Fin lo) (Fin hi) fb = Fin r" and b: "min hi (max lo r) = r" by blast
    show ?thesis unfolding a by (simp add: clampNum_Fin b)
  qed
qed

lemma clampInt_int:
  "clampInt n (Fin (of_int lo)) (Fin (of_int hi)) (Fin (of_int fb)) =
     Fin (of_int (min hi (max lo (case n of Num (Fin x) \<Rightarrow> round x | _ \<Rightarrow> fb))))"
proof (cases n)
  case (Num x)
  then show ?thesis by (cases x) (simp_all add: clampInt_Fin)
qed (simp_all add: clampInt_Fin)

lemma clampInt_idem:
  "clampInt (Num (clampInt n (Fin (of_int lo)) (Fin (of_int hi)) (Fin (of_int fb))))
       (Fin (of_int lo)) (Fin (of_int hi)) (Fin (of_int fb))
   = clampInt n (Fin (of_int lo)) (Fin (of_int hi)) (Fin (of_int fb))"
  by (simp add: clampInt_int)

lemma clampNum_within:
  "lo \<le> x \<Longrightarrow> x \<le> hi \<Longrightarrow> clampNum (Num (Fin x)) (Fin lo) (Fin hi) fb = Fin x"
  by (simp add: clampNum_Fin)

lemma clampInt_within:
  assumes "of_int lo \<le> x" "x \<le> of_int hi"
  shows "clampInt (Num (Fin x)) (Fin (of_int lo)) (Fin (of_int hi)) fb = Fin (of_int (round x))"
proof -
  have "round (of_int lo :: real) \<le> round x" using assms(1) by (rule round_mono)
  moreover have "round x \<le> round (of_int hi :: real)" using assms(2) by (rule round_mono)
  ultimately have "lo \<le> round x" "round x \<le> hi" by simp_all
  then show ?thesis by (simp add: clampInt_Fin)
qed

text \<open>
  Claim C7, as amended. For finite bounds and every input and fallback, \<open>clampNum\<close> is
  idempotent, and a finite number within the bounds is returned unchanged. For integer
  bounds and an integer fallback (as at every call in the handler), \<open>clampInt\<close> is
  idempotent, and a finite number within the bounds is returned rounded.
\<close>

theorem clamp_idempotent:
  "clampNum (Num (clampNum n (Fin lo) (Fin hi) fb)) (Fin lo) (Fin hi) fb
     = clampNum n (Fin lo) (Fin hi) fb \<and>
   clampInt (Num (clampInt m (Fin (of_int a)) (Fin (of_int b)) (Fin (of_int d))))
       (Fin (of_int a)) (Fin (of_int b)) (Fin (of_int d))
     = clampInt m (Fin (of_int a)) (Fin (of_int b)) (Fin (of_int d)) \<and>
   (lo \<le> x \<and> x \<le> hi \<longrightarrow> clampNum (Num (Fin x)) (Fin lo) (Fin hi) fb = Fin x) \<and>
   (of_int a \<le> y \<and> y \<le> of_int b \<longrightarrow>
      clampInt (Num (Fin y)) (Fin (of_int a)) (Fin (of_int b)) fb' = Fin (of_int (round y)))"
  using clampNum_idem clampInt_idem clampNum_within clampInt_within by simp

theorem clamp_idempotent_witness:
  "clampNum (Num (Fin (-5))) (Fin 1) (Fin 20) (Fin (15 / 2)) = Fin 1 \<and>
   clampNum (Num (clampNum (Num (Fin (-5))) (Fin 1) (Fin 20) (Fin (15 / 2)))) (Fin 1) (Fin 20)
       (Fin (15 / 2)) = Fin 1 \<and>
   clampInt (Num (Fin 99999)) (Fin 256) (Fin 2048) (Fin 1344) = Fin 2048 \<and>
   clampInt (Num (clampInt (Num (Fin 99999)) (Fin 256) (Fin 2048) (Fin 1344))) (Fin 256)
       (Fin 2048) (Fin 1344) = Fin 2048 \<and>
   (1::real) \<le> 7 / 2 \<and> (7 / 2 :: real) \<le> 20 \<and>
   clampNum (Num (Fin (7 / 2))) (Fin 1) (Fin 20) (Fin (15 / 2)) = Fin (7 / 2) \<and>
   (256::real) \<le> 1023 / 2 \<and> (1023 / 2 :: real) \<le> 2048 \<and>
   clampInt (Num (Fin (1023 / 2))) (Fin 256) (Fin 2048) (Fin 1344) = Fin 512"
proof -
  have r: "round (1023 / 2 :: real) = 512" by (simp add: round_def)
  have v: "clampNum (Num (Fin (-5))) (Fin 1) (Fin 20) (Fin (15 / 2)) = Fin 1"
    by (simp add: clampNum_Fin)
  have w: "clampInt (Num (Fin 99999)) (Fin 256) (Fin 2048) (Fin 1344) = Fin 2048"
    by (simp add: clampInt_Fin)
  show ?thesis
    using clamp_idempotent [of "Num (Fin (-5))" 1 20 "Fin (15 / 2)" "Num (Fin 99999)" 256 2048 1344
        "7 / 2" "1023 / 2" "Fin 1344"]
    by (simp add: r v w)
qed

text \<open>
  The claim as stated fails for a bound that is not an integer: with bounds \<open>[0.5, 10]\<close>,
  \<open>clampInt(0)\<close> is \<open>0.5\<close>, and \<open>clampInt(0.5)\<close> is \<open>1\<close>.
\<close>

theorem clampInt_not_idempotent_counterexample:
  "clampInt (Num (clampInt (Num (Fin 0)) (Fin (1 / 2)) (Fin 10) (Fin 6))) (Fin (1 / 2)) (Fin 10)
       (Fin 6) \<noteq> clampInt (Num (Fin 0)) (Fin (1 / 2)) (Fin 10) (Fin 6) \<and>
   clampInt (Num (Fin 0)) (Fin (1 / 2)) (Fin 10) (Fin 6) = Fin (1 / 2) \<and>
   clampInt (Num (Fin (1 / 2))) (Fin (1 / 2)) (Fin 10) (Fin 6) = Fin 1"
proof -
  have a: "clampInt (Num (Fin 0)) (Fin (1 / 2)) (Fin 10) (Fin 6) = Fin (1 / 2)"
    by (simp add: clampInt_Fin)
  have b: "clampInt (Num (Fin (1 / 2))) (Fin (1 / 2)) (Fin 10) (Fin 6) = Fin 1"
    by (simp add: clampInt_Fin round_def)
  show ?thesis unfolding a using b by simp
qed

section \<open>The origin allowlist\<close>

lemma trim_eq_Nil: "trim s = [] \<longleftrightarrow> (\<forall>c \<in> set s. is_ws c)"
proof -
  let ?d = "dropWhile is_ws s"
  have "trim s = [] \<longleftrightarrow> dropWhile is_ws (rev ?d) = []" by (simp add: trim_def)
  also have "\<dots> \<longleftrightarrow> (\<forall>c \<in> set ?d. is_ws c)" by (simp add: dropWhile_eq_Nil_conv)
  also have "\<dots> \<longleftrightarrow> ?d = []"
  proof
    assume a: "\<forall>c \<in> set ?d. is_ws c"
    show "?d = []"
    proof (rule ccontr)
      assume "?d \<noteq> []"
      then have "\<not> is_ws (hd ?d)" "hd ?d \<in> set ?d" by (simp_all add: hd_dropWhile)
      with a show False by blast
    qed
  next
    assume e: "?d = []"
    show "\<forall>c \<in> set ?d. is_ws c" unfolding e by simp
  qed
  also have "\<dots> \<longleftrightarrow> (\<forall>c \<in> set s. is_ws c)" by (simp add: dropWhile_eq_Nil_conv)
  finally show ?thesis .
qed

lemma split_not_Nil: "split sep s \<noteq> []"
  by (induction s) (auto split: list.splits)

lemma split_chars: "p \<in> set (split sep s) \<Longrightarrow> set p \<subseteq> set s"
proof (induction s arbitrary: p)
  case Nil
  then show ?case by simp
next
  case (Cons c cs)
  show ?case
  proof (cases "c = sep")
    case True
    with Cons show ?thesis by auto
  next
    case False
    obtain q qs where q: "split sep cs = q # qs" using split_not_Nil by (cases "split sep cs") auto
    with False Cons.prems have pq: "p = c # q \<or> p \<in> set qs" by auto
    have 1: "set q \<subseteq> set cs" using Cons.IH[of q] q by simp
    have 2: "set r \<subseteq> set cs" if "r \<in> set qs" for r using Cons.IH[of r] q that by simp
    from pq 1 2 show ?thesis by auto
  qed
qed

lemma fold_add_part: "fold add_part ps s = s \<union> (trim ` set ps - {[]})"
  by (induction ps arbitrary: s) (auto simp: add_part_def Let_def)

lemma parseAllowedOrigins_allowlist: "parseAllowedOrigins env = allowlist env"
proof -
  have *: "trim ` set (split comma l) - {[]} = {}" if "trim l = []" for l
  proof -
    from that have "\<forall>c \<in> set l. is_ws c" by (simp add: trim_eq_Nil)
    then have "\<forall>p \<in> set (split comma l). trim p = []"
      using split_chars by (fastforce simp: trim_eq_Nil)
    then show ?thesis by auto
  qed
  show ?thesis
    by (auto simp: parseAllowedOrigins_def allowlist_def Let_def fold_add_part * split: option.splits)
qed

lemma Nil_notin_allowlist: "[] \<notin> allowlist env"
  by (auto simp: allowlist_def default_origins_def js_def split: option.splits)

lemma js_append: "js (a @ b) = js a @ js b"
  by (simp add: js_def)

lemma allowlist_listed: "allowlist listed_env = default_origins \<union> {js ''http://a.io'', js ''http://b.io''}"
proof -
  have s: "split comma (js ''http://a.io, ,http://b.io '') = [js ''http://a.io'', js '' '', js ''http://b.io '']"
    by (simp add: js_def u16_def comma_def)
  have t: "trim (js ''http://a.io'') = js ''http://a.io''" "trim (js '' '') = []"
    "trim (js ''http://b.io '') = js ''http://b.io''"
    by (simp_all add: trim_def js_def u16_def is_ws_def)
  show ?thesis
    by (auto simp: allowlist_def listed_env_def demo_env_def s t) (simp_all add: js_def)
qed

lemma allowlist_default: "allowlist (demo_env k None) = default_origins"
  by (simp add: allowlist_def demo_env_def)

section \<open>Every response passes through respond\<close>

lemma cors_Vary: "corsHeaders rq env (js ''Vary'') = Some (js ''Origin'')"
  by (simp add: corsHeaders_def Let_def ACAO_def js_eq_iff)

lemma cors_ACAO:
  "corsHeaders rq env ACAO =
     (case hdrs rq (js ''Origin'') of
        None \<Rightarrow> None
      | Some orig \<Rightarrow> if orig \<in> allowlist env then Some orig else None)"
  using Nil_notin_allowlist [of env]
  by (auto simp: corsHeaders_def Let_def ACAO_def js_eq_iff parseAllowedOrigins_allowlist
      split: option.splits)

lemma Headers_new_dom: "Headers_new pf init = Inr h \<Longrightarrow> dom h = fst ` set init"
proof (induction init arbitrary: h)
  case Nil
  then show ?case by auto
next
  case (Cons kv rest)
  obtain k v where kv: "kv = (k, v)" by (cases kv)
  from Cons.prems obtain h' where h': "Headers_new pf rest = Inr h'" and h: "h = h'(k \<mapsto> toString pf v)"
    by (auto simp: kv split: option.splits sum.splits)
  have "dom h = insert k (dom h')" using h by simp
  with Cons.IH [OF h'] show ?case by (simp add: kv)
qed

lemma respond_nil:
  "respond pf rq env b st [] = Inr \<lparr>status = st, body = b, headers = corsHeaders rq env\<rparr>"
  by (simp add: respond_def)

lemma respond_carries:
  assumes "ACAO \<notin> fst ` set init" "st \<in> S"
  shows "carries_cors rq env S (respond pf rq env b st init)"
proof (cases "Headers_new pf init")
  case (Inl e)
  then show ?thesis by (simp add: respond_def carries_cors_def)
next
  case (Inr h)
  then have "ACAO \<notin> dom h" using Headers_new_dom assms(1) by blast
  then have "h ACAO = None" by blast
  then show ?thesis using Inr assms(2)
    by (simp add: respond_def carries_cors_def map_add_def map_le_def dom_def split: option.splits)
qed

lemma try_catch_carries:
  "carries_cors rq env S blk \<Longrightarrow> (\<And>e. carries_cors rq env S (handler e)) \<Longrightarrow>
   carries_cors rq env S (try_catch blk handler)"
  by (cases blk) (simp_all add: try_catch_def)

lemma carries_Inl: "carries_cors rq env S (Inl e)"
  by (simp add: carries_cors_def)

lemma carries_mono: "carries_cors rq env S x \<Longrightarrow> S \<subseteq> T \<Longrightarrow> carries_cors rq env T x"
  by (auto simp: carries_cors_def split: sum.splits)

lemma upstream_error_carries: "carries_cors rq env {200, 400, 502} (upstream_error pf rq env e)"
  unfolding upstream_error_def by (rule respond_carries) simp_all

lemma run_flux_carries:
  "carries_cors rq env {200, 400, 502} (result (run_flux pf rq env b style prompt))"
  unfolding run_flux_def Let_def
  apply simp
  apply (rule try_catch_carries)
   apply (auto split: ai_result.splits jsval.splits sum.splits
      intro!: respond_carries carries_Inl simp: ACAO_def js_eq_iff)[1]
  apply (rule upstream_error_carries)
  done

lemma run_sdxl_carries:
  "carries_cors rq env {200, 400, 502} (result (run_sdxl pf rq env b style prompt))"
  unfolding run_sdxl_def Let_def
  apply simp
  apply (rule try_catch_carries)
   apply (auto split: ai_result.splits
      intro!: respond_carries carries_Inl simp: ACAO_def js_eq_iff)[1]
  apply (rule upstream_error_carries)
  done

lemma generate_carries:
  "carries_cors rq env {200, 400, 502} (result (generate pf rq env))"
  unfolding generate_def Let_def settled_def
  by (auto split: option.splits jsval.splits
      intro!: respond_carries carries_Inl run_flux_carries run_sdxl_carries)

lemma fetch_carries:
  "carries_cors rq env {200, 204, 400, 401, 404, 405, 502} (result (fetch pf rq env))"
  unfolding fetch_def settled_def
  by (auto intro!: respond_carries carries_mono [OF generate_carries])

lemma fetch_carriesD:
  assumes "result (fetch pf rq env) = Inr r"
  shows "status r \<in> {200, 204, 400, 401, 404, 405, 502}"
    and "corsHeaders rq env \<subseteq>\<^sub>m headers r"
    and "headers r ACAO = corsHeaders rq env ACAO"
  using fetch_carries [of rq env pf] assms by (simp_all add: carries_cors_def)

lemma generate_statusD:
  assumes "result (generate pf rq env) = Inr r"
  shows "status r \<in> {200, 400, 502}"
  using generate_carries [of rq env pf] assms by (simp add: carries_cors_def)

lemma cors_fixed:
  "corsHeaders rq env (js ''Vary'') = Some (js ''Origin'')"
  "corsHeaders rq env (js ''Access-Control-Allow-Methods'') = Some (js ''POST, OPTIONS'')"
  "corsHeaders rq env (js ''Access-Control-Allow-Headers'') = Some (js ''Content-Type, Authorization'')"
  "corsHeaders rq env (js ''Access-Control-Max-Age'') = Some (js ''86400'')"
  "corsHeaders rq env (js ''Access-Control-Expose-Headers'') =
     Some (js ''X-Model, X-Steps, X-Style, X-Num-Steps, X-Guidance, X-Prompt-Chars'')"
  by (simp_all add: corsHeaders_def Let_def ACAO_def js_eq_iff)

section \<open>The bearer token\<close>

lemma token_eq:
  "K \<noteq> [] \<Longrightarrow> token request = K \<longleftrightarrow> hdrs request (js ''Authorization'') = Some (js ''Bearer '' @ K)"
proof -
  assume K: "K \<noteq> []"
  have l: "length (js ''Bearer '') = 7" by (simp add: length_js)
  show ?thesis
  proof (cases "hdrs request (js ''Authorization'')")
    case None
    then show ?thesis using K by (auto simp: token_def startsWith_def)
  next
    case (Some a)
    show ?thesis
    proof (cases "startsWith a (js ''Bearer '')")
      case True
      then have "a = js ''Bearer '' @ drop 7 a"
        using l by (metis append_take_drop_id startsWith_def)
      then show ?thesis using Some True l
        by (auto simp: token_def Let_def)
    next
      case False
      then have "a \<noteq> js ''Bearer '' @ K" using l by (auto simp: startsWith_def)
      then show ?thesis using Some False K by (auto simp: token_def Let_def)
    qed
  qed
qed

lemma bearer_s3cret: "js ''Bearer '' @ js ''s3cret'' = js ''Bearer s3cret''"
  by (simp add: js_def)

lemma api_key_secret: "API_KEY secret_env = Some (js ''s3cret'')" "js ''s3cret'' \<noteq> []"
  by (simp_all add: secret_env_def demo_env_def js_def)

section \<open>CORS\<close>

text \<open>
  Claim C2. The allowlist the code computes is the one the specification describes. On
  every response of the handler the header \<open>Access-Control-Allow-Origin\<close> is the request's
  \<open>Origin\<close> when that origin is in the allowlist, and is absent otherwise (also when the
  request has no \<open>Origin\<close>); it is never another value.
\<close>

theorem cors_origin_echo:
  "result (fetch pf request env) = Inr r \<Longrightarrow>
   parseAllowedOrigins env = allowlist env \<and>
   headers r ACAO =
     (case hdrs request (js ''Origin'') of
        None \<Rightarrow> None
      | Some orig \<Rightarrow> if orig \<in> allowlist env then Some orig else None)"
  by (simp add: fetch_carriesD(3) cors_ACAO parseAllowedOrigins_allowlist)

theorem cors_origin_echo_witness:
  "result (fetch demo_platform (get_root (js ''http://b.io'')) listed_env)
     = Inr \<lparr>status = 404, body = Str (js ''Not found''),
            headers = corsHeaders (get_root (js ''http://b.io'')) listed_env\<rparr> \<and>
   js ''http://b.io'' \<in> allowlist listed_env \<and>
   corsHeaders (get_root (js ''http://b.io'')) listed_env ACAO = Some (js ''http://b.io'') \<and>
   result (fetch demo_platform (get_root (js ''https://evil.example'')) listed_env)
     = Inr \<lparr>status = 404, body = Str (js ''Not found''),
            headers = corsHeaders (get_root (js ''https://evil.example'')) listed_env\<rparr> \<and>
   js ''https://evil.example'' \<notin> allowlist listed_env \<and>
   corsHeaders (get_root (js ''https://evil.example'')) listed_env ACAO = None"
proof -
  have f: "result (fetch demo_platform (get_root orig) listed_env)
      = Inr \<lparr>status = 404, body = Str (js ''Not found''),
            headers = corsHeaders (get_root orig) listed_env\<rparr>" for orig
    by (simp add: fetch_def get_root_def settled_def respond_nil js_eq_iff)
  have o: "hdrs (get_root orig) (js ''Origin'') = Some orig" for orig
    by (simp add: get_root_def)
  have m: "js ''http://b.io'' \<in> allowlist listed_env"
    by (simp add: allowlist_listed)
  have n: "js ''https://evil.example'' \<notin> allowlist listed_env"
    by (simp add: allowlist_listed default_origins_def js_eq_iff)
  show ?thesis
    using cors_origin_echo [OF f, of "js ''http://b.io''"]
      cors_origin_echo [OF f, of "js ''https://evil.example''"] f m n
    by (simp add: o)
qed

text \<open>
  Claim C5. Every response of the handler, so each of the 400, 401, 404, 405 and 502
  outcomes, has one of the seven statuses listed and carries every header of
  \<open>corsHeaders\<close>: \<open>Vary: Origin\<close> is there, and \<open>Access-Control-Allow-Origin\<close> is the request's
  origin whenever that origin is in the allowlist.
\<close>

theorem error_responses_carry_cors:
  "result (fetch pf request env) = Inr r \<Longrightarrow>
   status r \<in> {200, 204, 400, 401, 404, 405, 502} \<and>
   corsHeaders request env \<subseteq>\<^sub>m headers r \<and>
   headers r (js ''Vary'') = Some (js ''Origin'') \<and>
   (\<forall>orig. hdrs request (js ''Origin'') = Some orig \<and> orig \<in> allowlist env \<longrightarrow>
      headers r ACAO = Some orig)"
proof -
  assume a: "result (fetch pf request env) = Inr r"
  have "headers r (js ''Vary'') = Some (js ''Origin'')"
    using fetch_carriesD(2) [OF a] cors_fixed(1) [of request env] by (auto simp: map_le_def dom_def)
  then show ?thesis
    using fetch_carriesD [OF a] by (auto simp: cors_ACAO)
qed

theorem error_responses_carry_cors_witness:
  "result (fetch demo_platform wrong_bearer secret_env)
     = Inr \<lparr>status = 401, body = Str (js ''Unauthorized''),
            headers = corsHeaders wrong_bearer secret_env\<rparr> \<and>
   hdrs wrong_bearer (js ''Origin'') = Some (js ''https://webhtml5.info'') \<and>
   js ''https://webhtml5.info'' \<in> allowlist secret_env \<and>
   corsHeaders wrong_bearer secret_env (js ''Vary'') = Some (js ''Origin'') \<and>
   corsHeaders wrong_bearer secret_env ACAO = Some (js ''https://webhtml5.info'')"
proof -
  have t: "token wrong_bearer = js ''wrong''"
    by (simp add: token_def wrong_bearer_def post_generate_def startsWith_def js_def js_eq_iff
        u16_eq_iff)
  have f: "result (fetch demo_platform wrong_bearer secret_env)
     = Inr \<lparr>status = 401, body = Str (js ''Unauthorized''),
            headers = corsHeaders wrong_bearer secret_env\<rparr>"
    unfolding fetch_def t
    by (simp add: api_key_secret settled_def respond_nil js_eq_iff wrong_bearer_def
        post_generate_def)
  have m: "js ''https://webhtml5.info'' \<in> allowlist secret_env"
    by (simp add: secret_env_def allowlist_default default_origins_def)
  have o: "hdrs wrong_bearer (js ''Origin'') = Some (js ''https://webhtml5.info'')"
    by (simp add: wrong_bearer_def post_generate_def js_eq_iff)
  show ?thesis
    using error_responses_carry_cors [OF f] f m o by simp
qed

section \<open>Routing and authentication\<close>

text \<open>
  Claim C4, as amended. A request whose method is \<open>OPTIONS\<close> is answered with status 204,
  no body and the CORS headers on every path but \<open>/__version\<close>, before the routing on
  \<open>/api/generate\<close> and on the method; on \<open>/__version\<close> the version route, which comes
  first, answers 200 with the version text and the same CORS headers.
\<close>

theorem options_preflight:
  "method request = js ''OPTIONS'' \<Longrightarrow>
   fetch pf request env =
     settled (Inr (if pathname request = js ''/__version''
                   then \<lparr>status = 200, body = Str version_text, headers = corsHeaders request env\<rparr>
                   else \<lparr>status = 204, body = Null, headers = corsHeaders request env\<rparr>)) \<and>
   corsHeaders request env (js ''Vary'') = Some (js ''Origin'') \<and>
   corsHeaders request env (js ''Access-Control-Allow-Methods'') = Some (js ''POST, OPTIONS'') \<and>
   corsHeaders request env (js ''Access-Control-Allow-Headers'') =
     Some (js ''Content-Type, Authorization'') \<and>
   corsHeaders request env (js ''Access-Control-Max-Age'') = Some (js ''86400'') \<and>
   corsHeaders request env (js ''Access-Control-Expose-Headers'') =
     Some (js ''X-Model, X-Steps, X-Style, X-Num-Steps, X-Guidance, X-Prompt-Chars'')"
  by (simp add: fetch_def respond_nil cors_fixed)

theorem options_preflight_witness:
  "method (bare (js ''OPTIONS'') (js ''/api/generate'')) = js ''OPTIONS'' \<and>
   fetch demo_platform (bare (js ''OPTIONS'') (js ''/api/generate'')) (demo_env None None)
     = settled (Inr \<lparr>status = 204, body = Null,
         headers = corsHeaders (bare (js ''OPTIONS'') (js ''/api/generate'')) (demo_env None None)\<rparr>) \<and>
   method (bare (js ''OPTIONS'') (js ''/nowhere'')) = js ''OPTIONS'' \<and>
   fetch demo_platform (bare (js ''OPTIONS'') (js ''/nowhere'')) (demo_env None None)
     = settled (Inr \<lparr>status = 204, body = Null,
         headers = corsHeaders (bare (js ''OPTIONS'') (js ''/nowhere'')) (demo_env None None)\<rparr>)"
proof -
  have m: "method (bare (js ''OPTIONS'') p) = js ''OPTIONS''" for p
    by (simp add: bare_def)
  have p: "pathname (bare (js ''OPTIONS'') (js ''/api/generate'')) \<noteq> js ''/__version''"
    "pathname (bare (js ''OPTIONS'') (js ''/nowhere'')) \<noteq> js ''/__version''"
    by (simp_all add: bare_def js_eq_iff)
  show ?thesis
    using
      options_preflight [of "bare (js ''OPTIONS'') (js ''/api/generate'')" demo_platform
        "demo_env None None", OF m]
      options_preflight [of "bare (js ''OPTIONS'') (js ''/nowhere'')" demo_platform
        "demo_env None None", OF m] m p
    by simp
qed

text \<open>
  The claim as stated fails on the path \<open>/__version\<close>: the response to \<open>OPTIONS\<close> has
  status 200 and a body.
\<close>

theorem options_version_counterexample:
  "method (bare (js ''OPTIONS'') (js ''/__version'')) = js ''OPTIONS'' \<and>
   result (fetch demo_platform (bare (js ''OPTIONS'') (js ''/__version'')) (demo_env None None))
     = Inr \<lparr>status = 200, body = Str version_text,
         headers = corsHeaders (bare (js ''OPTIONS'') (js ''/__version'')) (demo_env None None)\<rparr>"
  by (simp add: fetch_def bare_def settled_def respond_nil)

text \<open>
  Claim C3, as amended. For a \<open>POST /api/generate\<close>: when no secret is configured the
  request proceeds to the handling of the body, whatever its \<open>Authorization\<close> header; when
  a secret \<open>K\<close> that is not the empty string is configured, the request proceeds if its
  \<open>Authorization\<close> header is exactly \<open>Bearer K\<close>, and every other request (no header,
  another scheme, another token, a difference in whitespace) gets status 401 with body
  \<open>Unauthorized\<close>. The handling of the body never answers 401, so the two cases differ.
\<close>

theorem auth_gating:
  assumes "pathname request = js ''/api/generate''" and "method request = js ''POST''"
  shows "(API_KEY env = None \<longrightarrow> fetch pf request env = generate pf request env) \<and>
         (\<forall>K. API_KEY env = Some K \<and> K \<noteq> [] \<longrightarrow>
            (hdrs request (js ''Authorization'') = Some (js ''Bearer '' @ K) \<longrightarrow>
               fetch pf request env = generate pf request env) \<and>
            (hdrs request (js ''Authorization'') \<noteq> Some (js ''Bearer '' @ K) \<longrightarrow>
               fetch pf request env =
                 settled (Inr \<lparr>status = 401, body = Str (js ''Unauthorized''),
                               headers = corsHeaders request env\<rparr>))) \<and>
         (\<forall>r. result (generate pf request env) = Inr r \<longrightarrow> status r \<noteq> 401)"
proof -
  have g: "\<forall>r. result (generate pf request env) = Inr r \<longrightarrow> status r \<noteq> 401"
    using generate_statusD by fastforce
  show ?thesis
    using assms g by (auto simp: fetch_def js_eq_iff token_eq respond_nil)
qed

theorem auth_gating_witness:
  "fetch demo_platform (post_generate Map.empty None) (demo_env None None)
     = generate demo_platform (post_generate Map.empty None) (demo_env None None) \<and>
   fetch demo_platform (post_generate [js ''Authorization'' \<mapsto> js ''Bearer s3cret''] None) secret_env
     = generate demo_platform (post_generate [js ''Authorization'' \<mapsto> js ''Bearer s3cret''] None) secret_env \<and>
   fetch demo_platform (post_generate [js ''Authorization'' \<mapsto> js ''Bearer wrong''] None) secret_env
     = settled (Inr \<lparr>status = 401, body = Str (js ''Unauthorized''),
         headers = corsHeaders (post_generate [js ''Authorization'' \<mapsto> js ''Bearer wrong''] None) secret_env\<rparr>) \<and>
   fetch demo_platform (post_generate Map.empty None) secret_env
     = settled (Inr \<lparr>status = 401, body = Str (js ''Unauthorized''),
         headers = corsHeaders (post_generate Map.empty None) secret_env\<rparr>) \<and>
   result (generate demo_platform (post_generate Map.empty None) secret_env)
     = Inr \<lparr>status = 400, body = Str (js ''Invalid JSON''),
         headers = corsHeaders (post_generate Map.empty None) secret_env\<rparr> \<and>
   status \<lparr>status = 400, body = Str (js ''Invalid JSON''),
         headers = corsHeaders (post_generate Map.empty None) secret_env\<rparr> \<noteq> 401"
proof -
  have g: "result (generate demo_platform (post_generate Map.empty None) secret_env)
     = Inr \<lparr>status = 400, body = Str (js ''Invalid JSON''),
         headers = corsHeaders (post_generate Map.empty None) secret_env\<rparr>"
    by (simp add: generate_def post_generate_def settled_def respond_nil)
  have p: "pathname (post_generate h b) = js ''/api/generate''" "method (post_generate h b) = js ''POST''" for h b
    by (simp_all add: post_generate_def)
  have n: "API_KEY (demo_env None None) = None" by (simp add: demo_env_def)
  have h: "hdrs (post_generate h b) = h" for h b by (simp add: post_generate_def)
  show ?thesis
    using auth_gating [OF p, of "demo_env None None" demo_platform Map.empty None]
      auth_gating [OF p, of secret_env demo_platform "[js ''Authorization'' \<mapsto> js ''Bearer s3cret'']" None]
      auth_gating [OF p, of secret_env demo_platform "[js ''Authorization'' \<mapsto> js ''Bearer wrong'']" None]
      auth_gating [OF p, of secret_env demo_platform Map.empty None]
    by (simp add: n h g api_key_secret bearer_s3cret js_eq_iff)
qed

text \<open>
  The claim as stated fails for the empty string as the configured secret: a request
  without an \<open>Authorization\<close> header proceeds (here to the answer 400 for its body).
\<close>

theorem auth_empty_secret_counterexample:
  "API_KEY (demo_env (Some []) None) = Some [] \<and>
   hdrs (post_generate Map.empty None) (js ''Authorization'') \<noteq> Some (js ''Bearer '' @ []) \<and>
   result (fetch demo_platform (post_generate Map.empty None) (demo_env (Some []) None))
     = Inr \<lparr>status = 400, body = Str (js ''Invalid JSON''),
            headers = corsHeaders (post_generate Map.empty None) (demo_env (Some []) None)\<rparr>"
  by (simp add: demo_env_def post_generate_def fetch_def generate_def settled_def respond_nil js_eq_iff)

lemma cors_API_KEY: "corsHeaders rq (env\<lparr>API_KEY := k\<rparr>) = corsHeaders rq env"
  by (simp add: corsHeaders_def parseAllowedOrigins_def)

lemma respond_API_KEY: "respond pf rq (env\<lparr>API_KEY := k\<rparr>) = respond pf rq env"
  by (intro ext) (simp add: respond_def cors_API_KEY cong: sum.case_cong)

lemma upstream_error_API_KEY:
  "upstream_error pf rq (env\<lparr>API_KEY := k\<rparr>) = upstream_error pf rq env"
  by (intro ext) (simp add: upstream_error_def respond_API_KEY)

lemma run_flux_API_KEY: "run_flux pf rq (env\<lparr>API_KEY := k\<rparr>) = run_flux pf rq env"
  unfolding run_flux_def respond_API_KEY upstream_error_API_KEY by simp

lemma run_sdxl_API_KEY: "run_sdxl pf rq (env\<lparr>API_KEY := k\<rparr>) = run_sdxl pf rq env"
  unfolding run_sdxl_def respond_API_KEY upstream_error_API_KEY by simp

lemma generate_API_KEY: "generate pf rq (env\<lparr>API_KEY := k\<rparr>) = generate pf rq env"
  unfolding generate_def respond_API_KEY run_flux_API_KEY run_sdxl_API_KEY by (rule refl)

text \<open>
  Claim C10. When the configured secret is the empty string, the handler answers every
  request as it does with no secret configured: a \<open>POST /api/generate\<close> proceeds to the
  handling of the body whatever its headers, and no response has status 401.
\<close>

theorem empty_secret_skips_auth:
  "API_KEY env = Some [] \<Longrightarrow>
   fetch pf request env = fetch pf request (env\<lparr>API_KEY := None\<rparr>) \<and>
   (pathname request = js ''/api/generate'' \<and> method request = js ''POST'' \<longrightarrow>
      fetch pf request env = generate pf request env) \<and>
   (\<forall>r. result (fetch pf request env) = Inr r \<longrightarrow> status r \<noteq> 401)"
proof -
  assume k: "API_KEY env = Some []"
  have 1: "fetch pf request env = fetch pf request (env\<lparr>API_KEY := None\<rparr>)"
    using k by (simp add: fetch_def respond_API_KEY generate_API_KEY)
  have 2: "fetch pf request env = generate pf request env"
    if "pathname request = js ''/api/generate''" "method request = js ''POST''"
    using k that by (simp add: fetch_def js_eq_iff)
  have 3: "status r \<noteq> 401" if r: "result (fetch pf request env) = Inr r" for r
  proof (cases "pathname request = js ''/api/generate'' \<and> method request = js ''POST''")
    case True
    with 2 r have "result (generate pf request env) = Inr r" by simp
    then show ?thesis using generate_statusD by fastforce
  next
    case False
    with r k show ?thesis
      by (auto simp: fetch_def settled_def respond_nil split: if_splits)
  qed
  from 1 2 3 show ?thesis by blast
qed

theorem empty_secret_skips_auth_witness:
  "API_KEY (demo_env (Some []) None) = Some [] \<and>
   fetch demo_platform (post_generate Map.empty None) (demo_env (Some []) None)
     = fetch demo_platform (post_generate Map.empty None) ((demo_env (Some []) None)\<lparr>API_KEY := None\<rparr>) \<and>
   fetch demo_platform (post_generate Map.empty None) (demo_env (Some []) None)
     = generate demo_platform (post_generate Map.empty None) (demo_env (Some []) None) \<and>
   result (fetch demo_platform (post_generate Map.empty None) (demo_env (Some []) None))
     = Inr \<lparr>status = 400, body = Str (js ''Invalid JSON''),
         headers = corsHeaders (post_generate Map.empty None) (demo_env (Some []) None)\<rparr> \<and>
   status \<lparr>status = 400, body = Str (js ''Invalid JSON''),
         headers = corsHeaders (post_generate Map.empty None) (demo_env (Some []) None)\<rparr> \<noteq> 401"
proof -
  have k: "API_KEY (demo_env (Some []) None) = Some []" by (simp add: demo_env_def)
  have g: "result (generate demo_platform (post_generate Map.empty None) (demo_env (Some []) None))
     = Inr \<lparr>status = 400, body = Str (js ''Invalid JSON''),
         headers = corsHeaders (post_generate Map.empty None) (demo_env (Some []) None)\<rparr>"
    by (simp add: generate_def post_generate_def settled_def respond_nil)
  have p: "pathname (post_generate Map.empty None) = js ''/api/generate''"
    "method (post_generate Map.empty None) = js ''POST''"
    by (simp_all add: post_generate_def)
  show ?thesis
    using empty_secret_skips_auth [OF k, of demo_platform "post_generate Map.empty None"] k p g
    by auto
qed

section \<open>The parameters of the generation call\<close>

lemma seed_not_flux_key: "map_of (flux_inputs b prompt steps) (js ''seed'') = map_of (seed_spread b) (js ''seed'')"
  by (simp add: flux_inputs_def js_eq_iff)

lemma seed_not_sdxl_key:
  "map_of (sdxl_inputs pf b prompt w h n g) (js ''seed'') = map_of (seed_spread b) (js ''seed'')"
  by (simp add: sdxl_inputs_def js_eq_iff)

lemma map_of_seed_spread:
  "map_of (seed_spread b) (js ''seed'') =
     (case get b (js ''seed'') of Num x \<Rightarrow> Some (Num (Math_floor x)) | _ \<Rightarrow> None)"
  by (simp add: seed_spread_def split: jsval.splits)

lemma generate_calls:
  assumes "json request = Some b" "(m, inputs) \<in> set (calls (generate pf request env))"
  shows "map_of inputs (js ''seed'') = map_of (seed_spread b) (js ''seed'')"
  using assms
  by (auto simp: generate_def settled_def run_flux_def run_sdxl_def Let_def seed_not_flux_key
      seed_not_sdxl_key split: if_splits jsval.splits)

lemma fox_ne: "js ''a fox'' \<noteq> []" by (simp add: js_def)

lemma calls_fox:
  "calls (fetch demo_platform (post_generate Map.empty (Some (fox_body seed))) (demo_env None None))
     = [(FLUX, fox_inputs seed)]"
  by (simp add: fetch_def post_generate_def demo_env_def generate_def fox_body_def js_eq_iff
      trim_fox len_fox fox_ne run_flux_def clampInt_Fin fox_inputs_def)

lemma get_seed_fox: "get (fox_body seed) (js ''seed'') = seed"
  by (simp add: fox_body_def js_eq_iff)

lemma calls_sdxl:
  "calls (fetch demo_platform (post_generate Map.empty (Some (sdxl_body seed))) (demo_env None None))
     = [(SDXL, sdxl_fox_inputs seed)]"
  by (simp add: fetch_def post_generate_def demo_env_def generate_def sdxl_body_def js_eq_iff
      trim_fox len_fox fox_ne run_sdxl_def clampInt_Fin clampNum_Fin sdxl_fox_inputs_def)

lemma get_seed_sdxl: "get (sdxl_body seed) (js ''seed'') = seed"
  by (simp add: sdxl_body_def js_eq_iff)

text \<open>
  Claim C8, as amended. In every call of the generation capability, on either backend,
  the parameters have a \<open>seed\<close> field exactly when \<open>body.seed\<close> is a number (an integer or
  not), and its value is the floor of that number; otherwise they have no \<open>seed\<close> field.
\<close>

theorem seed_passed_iff_number:
  "json request = Some b \<Longrightarrow> (m, inputs) \<in> set (calls (fetch pf request env)) \<Longrightarrow>
   map_of inputs (js ''seed'') =
     (case get b (js ''seed'') of Num x \<Rightarrow> Some (Num (Math_floor x)) | _ \<Rightarrow> None)"
proof -
  assume b: "json request = Some b" and c: "(m, inputs) \<in> set (calls (fetch pf request env))"
  from c have "(m, inputs) \<in> set (calls (generate pf request env))"
    by (auto simp: fetch_def settled_def split: if_splits)
  from generate_calls [OF b this] show ?thesis by (simp add: map_of_seed_spread)
qed

theorem seed_passed_iff_number_witness:
  "json (post_generate Map.empty (Some (fox_body (Num (Fin 42))))) = Some (fox_body (Num (Fin 42))) \<and>
   (FLUX, fox_inputs (Num (Fin 42))) \<in> set (calls (fetch demo_platform
       (post_generate Map.empty (Some (fox_body (Num (Fin 42))))) (demo_env None None))) \<and>
   map_of (fox_inputs (Num (Fin 42))) (js ''seed'') = Some (Num (Fin 42)) \<and>
   json (post_generate Map.empty (Some (fox_body (Str (js ''42''))))) = Some (fox_body (Str (js ''42''))) \<and>
   (FLUX, fox_inputs (Str (js ''42''))) \<in> set (calls (fetch demo_platform
       (post_generate Map.empty (Some (fox_body (Str (js ''42''))))) (demo_env None None))) \<and>
   map_of (fox_inputs (Str (js ''42''))) (js ''seed'') = None \<and>
   json (post_generate Map.empty (Some (sdxl_body (Num (Fin 42))))) = Some (sdxl_body (Num (Fin 42))) \<and>
   (SDXL, sdxl_fox_inputs (Num (Fin 42))) \<in> set (calls (fetch demo_platform
       (post_generate Map.empty (Some (sdxl_body (Num (Fin 42))))) (demo_env None None))) \<and>
   map_of (sdxl_fox_inputs (Num (Fin 42))) (js ''seed'') = Some (Num (Fin 42))"
proof -
  have j: "json (post_generate Map.empty (Some b)) = Some b" for b
    by (simp add: post_generate_def)
  have c: "(FLUX, fox_inputs seed) \<in> set (calls (fetch demo_platform
       (post_generate Map.empty (Some (fox_body seed))) (demo_env None None)))" for seed
    by (simp add: calls_fox)
  have d: "(SDXL, sdxl_fox_inputs seed) \<in> set (calls (fetch demo_platform
       (post_generate Map.empty (Some (sdxl_body seed))) (demo_env None None)))" for seed
    by (simp add: calls_sdxl)
  show ?thesis
    using seed_passed_iff_number [OF j c, of "Num (Fin 42)"]
      seed_passed_iff_number [OF j c, of "Str (js ''42'')"]
      seed_passed_iff_number [OF j d, of "Num (Fin 42)"] j c d
    by (simp add: get_seed_fox get_seed_sdxl)
qed

text \<open>
  The claim as stated fails for a seed that is a number and not an integer: for the seed
  3.5 the parameters have the field \<open>seed\<close>, with value 3.
\<close>

theorem seed_not_integer_counterexample:
  "get (fox_body (Num (Fin (7 / 2)))) (js ''seed'') = Num (Fin (7 / 2)) \<and>
   real_of_int \<lfloor>7 / 2 :: real\<rfloor> \<noteq> 7 / 2 \<and>
   calls (fetch demo_platform (post_generate Map.empty (Some (fox_body (Num (Fin (7 / 2))))))
       (demo_env None None)) = [(FLUX, fox_inputs (Num (Fin (7 / 2))))] \<and>
   map_of (fox_inputs (Num (Fin (7 / 2)))) (js ''seed'') = Some (Num (Fin 3))"
proof -
  have "map_of (fox_inputs (Num (Fin (7 / 2)))) (js ''seed'') = Some (Num (Fin 3))"
    by (simp add: fox_inputs_def seed_not_flux_key map_of_seed_spread get_seed_fox)
  then show ?thesis by (simp add: calls_fox get_seed_fox)
qed

section \<open>Errors that escape the handler\<close>

text \<open>
  Claim C6 does not hold of the code: for the body \<open>{"prompt": 123}\<close>, and for the body
  \<open>null\<close>, the handler throws a \<open>TypeError\<close> outside every \<open>try\<close> and returns no response.
\<close>

theorem nonstring_prompt_throws:
  "result (fetch pf
      (post_generate Map.empty (Some (Obj [(js ''prompt'', Num (Fin 123))])))
      \<lparr>AI = ai, API_KEY = None, ALLOWED_ORIGIN = a, ALLOWED_ORIGINS = l\<rparr>) = Inl TypeError \<and>
   result (fetch pf (post_generate Map.empty (Some Null))
      \<lparr>AI = ai, API_KEY = None, ALLOWED_ORIGIN = a, ALLOWED_ORIGINS = l\<rparr>) = Inl TypeError"
  by (simp add: fetch_def post_generate_def generate_def settled_def js_eq_iff)

end
